theory Spec2Isabelle
  imports Main "HOL-Library.Word"
begin

section \<open>Redis sync provider of flagd: data model\<close>

text \<open>
  The development follows \<^verbatim>\<open>core/pkg/sync/redis/redis_sync.go\<close> and
  \<^verbatim>\<open>flagd/pkg/service/redis-sync/service.go\<close>. Go strings are byte sequences and
  are modelled as \<^typ>\<open>string\<close>. Go's \<^verbatim>\<open>error\<close> values are modelled by the
  constructors that the two files use: the sentinel \<^verbatim>\<open>redis.Nil\<close>,
  \<^verbatim>\<open>errors.New\<close>, and \<^verbatim>\<open>fmt.Errorf("<prefix>%w", err)\<close>.
\<close>

datatype error = redis_Nil | errors_New string | fmt_Errorf string error

fun Error :: "error \<Rightarrow> string" where
  "Error redis_Nil = ''redis: nil''"
| "Error (errors_New s) = s"
| "Error (fmt_Errorf prefix err) = prefix @ Error err"

text \<open>\<^verbatim>\<open>sync.DataSync\<close>, with the two fields that this provider fills in.\<close>

record DataSync =
  FlagData :: string
  Source :: string

text \<open>
  What a method does besides changing the receiver: the lines it logs, the values it
  sends on its \<^verbatim>\<open>dataSync\<close> channel argument and the notifications it passes to
  \<^verbatim>\<open>syncService.Emit\<close>, in program order.
\<close>

datatype effect =
    Log_Info string | Log_Debug string | Log_Error string | Send DataSync | Emit bool string

fun sent :: "effect list \<Rightarrow> DataSync list" where
  "sent [] = []"
| "sent (Send d # fx) = d # sent fx"
| "sent (e # fx) = sent fx"

text \<open>The value of an \<^verbatim>\<open>interface{}\<close> variable, as far as \<^verbatim>\<open>fetchData\<close>
  inspects it: nil, a string, or a value of another dynamic type (with its \<^verbatim>\<open>%T\<close> name).\<close>

datatype iface = iface_nil | iface_string string | iface_other string

text \<open>\<^verbatim>\<open>*redis.JSONCmd\<close> and \<^verbatim>\<open>*redis.StringCmd\<close>: the accessors the code calls.\<close>

record JSONCmd =
  JSONCmd_Err :: "error option"
  JSONCmd_Result :: "iface \<times> error option"

record StringCmd =
  StringCmd_Err :: "error option"
  StringCmd_Val :: string

text \<open>
  The \<^verbatim>\<open>RedisClient\<close> interface. A value of this type is the server as seen during
  one method call; successive calls may be given different values.
\<close>

record RedisClient =
  JSONGet :: "string \<Rightarrow> string \<Rightarrow> JSONCmd"
  Get :: "string \<Rightarrow> StringCmd"
  Ping :: "error option"
  Close_client :: "error option"

text \<open>
  The \<^verbatim>\<open>Cron\<close> interface. Its implementation (\<^verbatim>\<open>robfig/cron\<close>) is a third-party
  library; the interface is modelled by the schedule expressions added so far and by
  whether the scheduler has been started and not stopped.
\<close>

record Cron =
  cron_entries :: "string list"
  cron_running :: bool

definition AddFunc :: "string \<Rightarrow> Cron \<Rightarrow> Cron" where
  "AddFunc spec c = c\<lparr>cron_entries := cron_entries c @ [spec]\<rparr>"

definition Start :: "Cron \<Rightarrow> Cron" where
  "Start c = c\<lparr>cron_running := True\<rparr>"

definition Stop :: "Cron \<Rightarrow> Cron" where
  "Stop c = c\<lparr>cron_running := False\<rparr>"

text \<open>\<^verbatim>\<open>redis.Options\<close> as filled in by \<^verbatim>\<open>NewRedisSync\<close>; the TLS configuration
  is its \<^verbatim>\<open>ServerName\<close> when present.\<close>

record Options =
  Addr :: string
  opt_Password :: string
  DB :: int
  TLSConfig :: "string option"

text \<open>The \<^verbatim>\<open>Sync\<close> struct. \<^verbatim>\<open>Client\<close> holds the options the client was created
  with; the logger is represented by the \<^const>\<open>Log_Info\<close>, \<^const>\<open>Log_Debug\<close> and
  \<^const>\<open>Log_Error\<close> effects.\<close>

record Sync =
  URI :: string
  Client :: Options
  Cron :: Cron
  Key :: string
  Database :: int
  Password :: string
  TLS :: bool
  Interval :: "32 word"
  LastSHA :: string
  ready :: bool

text \<open>
  Library functions that the provider calls and whose code is outside these files:
  \<^verbatim>\<open>utils.ConvertToJSON\<close>, the SHA3-256 digest and \<^verbatim>\<open>base64.URLEncoding\<close>.
  They are parameters of the model.
\<close>

record libs =
  ConvertToJSON :: "string \<Rightarrow> string \<Rightarrow> string \<Rightarrow> error + string"
  sha3_256 :: "string \<Rightarrow> string"
  base64_URLEncoding :: "string \<Rightarrow> string"

section \<open>Formatting\<close>

text \<open>\<^verbatim>\<open>%d\<close> of an unsigned integer.\<close>

function fmt_d :: "nat \<Rightarrow> string" where
  "fmt_d n = (if n < 10 then [''0123456789'' ! n]
              else fmt_d (n div 10) @ [''0123456789'' ! (n mod 10)])"
  by pat_completeness auto
termination
  by (relation "measure id") auto

declare fmt_d.simps [simp del]

section \<open>The provider's methods\<close>

definition generateSHA :: "libs \<Rightarrow> string \<Rightarrow> string" where
  "generateSHA L data = base64_URLEncoding L (sha3_256 L data)"

text \<open>The tail shared by both branches of \<^verbatim>\<open>fetchData\<close>: convert, fingerprint, return.
  The two branches differ in the text of the conversion error only.\<close>

definition convert_and_hash ::
  "libs \<Rightarrow> string \<Rightarrow> string \<Rightarrow> Sync \<Rightarrow> (error + string) \<times> Sync" where
  "convert_and_hash L msg jsonString rs =
     (case ConvertToJSON L jsonString ''.json'' ''application/json'' of
        Inl err \<Rightarrow> (Inl (fmt_Errorf msg err), rs)
      | Inr convertedJSON \<Rightarrow>
          (Inr convertedJSON,
           if convertedJSON \<noteq> [] then rs\<lparr>LastSHA := generateSHA L convertedJSON\<rparr> else rs))"

definition fetchData ::
  "libs \<Rightarrow> RedisClient \<Rightarrow> Sync \<Rightarrow> (error + string) \<times> Sync \<times> effect list" where
  "fetchData L client rs =
     (let jsonResult = JSONGet client (Key rs) ''.'' in
      case JSONCmd_Err jsonResult of
        None \<Rightarrow>
          (case JSONCmd_Result jsonResult of
             (jsonData, Some err) \<Rightarrow>
               (Inl (fmt_Errorf ''failed to get result from Redis JSON command: '' err), rs, [])
           | (jsonData, None) \<Rightarrow>
               (case jsonData of
                  iface_nil \<Rightarrow> (Inr [], rs, [])
                | iface_other T \<Rightarrow>
                    (Inl (errors_New (''unexpected data type from Redis JSON.GET: '' @ T)), rs, [])
                | iface_string jsonString \<Rightarrow>
                    if jsonString = [] then (Inr [], rs, [])
                    else (let (r, rs') = convert_and_hash L
                                ''error converting Redis JSON to standard format: '' jsonString rs
                          in (r, rs', []))))
      | Some jerr \<Rightarrow>
          (let fx = (if jerr \<noteq> redis_Nil
                     then [Log_Debug (''Redis JSON.GET failed, falling back to GET: '' @ Error jerr)]
                     else []);
               result = Get client (Key rs)
           in case StringCmd_Err result of
                Some err \<Rightarrow>
                  if err = redis_Nil then (Inr [], rs, fx)
                  else (Inl (fmt_Errorf ''failed to get data from Redis: '' err), rs, fx)
              | None \<Rightarrow>
                  (let jsonString = StringCmd_Val result in
                   if jsonString = [] then (Inr [], rs, fx)
                   else (let (r, rs') = convert_and_hash L
                               ''error converting Redis data to standard JSON format: '' jsonString rs
                         in (r, rs', fx)))))"

text \<open>The function that \<^verbatim>\<open>Sync\<close> hands to \<^verbatim>\<open>Cron.AddFunc\<close>: one periodic cycle.\<close>

definition cron_job :: "libs \<Rightarrow> RedisClient \<Rightarrow> Sync \<Rightarrow> Sync \<times> effect list" where
  "cron_job L client rs =
     (let fx0 = [Log_Debug (''fetching configuration from Redis key: '' @ Key rs)];
          previousSHA = LastSHA rs;
          (r, rs', fx1) = fetchData L client rs
      in case r of
           Inl err \<Rightarrow> (rs', fx0 @ fx1 @ [Log_Error (''error fetching from Redis: '' @ Error err)])
         | Inr data \<Rightarrow>
             if data = [] then (rs', fx0 @ fx1 @ [Log_Debug ''Redis key not found or empty''])
             else if previousSHA = [] then
               (rs', fx0 @ fx1 @ [Log_Debug ''configuration created'',
                                  Send \<lparr>FlagData = data, Source = URI rs'\<rparr>])
             else if previousSHA \<noteq> LastSHA rs' then
               (rs', fx0 @ fx1 @ [Log_Debug ''configuration updated'',
                                  Send \<lparr>FlagData = data, Source = URI rs'\<rparr>])
             else (rs', fx0 @ fx1))"

text \<open>A firing of the scheduler runs the job only while the scheduler is running.\<close>

definition cron_fire :: "libs \<Rightarrow> RedisClient \<Rightarrow> Sync \<Rightarrow> Sync \<times> effect list" where
  "cron_fire L client rs = (if cron_running (Cron rs) then cron_job L client rs else (rs, []))"

fun run_cron :: "libs \<Rightarrow> RedisClient list \<Rightarrow> Sync \<Rightarrow> Sync \<times> effect list" where
  "run_cron L [] rs = (rs, [])"
| "run_cron L (client # fires) rs =
     (let (rs', fx) = cron_fire L client rs;
          (rs'', fx') = run_cron L fires rs'
      in (rs'', fx @ fx'))"

definition cron_spec :: "32 word \<Rightarrow> string" where
  "cron_spec interval = ''*/'' @ fmt_d (unat interval) @ '' * * * *''"

text \<open>
  \<^verbatim>\<open>Sync\<close> up to and including \<^verbatim>\<open>rs.Cron.Start()\<close>: the job is registered, the
  initial fetch is made, and on success the payload is sent, \<^verbatim>\<open>ready\<close> is set and the
  scheduler is started.
\<close>

definition Sync_start :: "libs \<Rightarrow> RedisClient \<Rightarrow> Sync \<Rightarrow> error option \<times> Sync \<times> effect list" where
  "Sync_start L client rs =
     (let fx0 = [Log_Info (''starting Redis sync for key '' @ Key rs @ '' with interval ''
                           @ fmt_d (unat (Interval rs)) @ ''s'')];
          rs1 = rs\<lparr>Cron := AddFunc (cron_spec (Interval rs)) (Cron rs)\<rparr>;
          fx1 = [Log_Debug (''initial sync of Redis key: '' @ Key rs1)];
          (r, rs2, fx2) = fetchData L client rs1
      in case r of
           Inl err \<Rightarrow> (Some (fmt_Errorf ''initial Redis fetch failed: '' err), rs2, fx0 @ fx1 @ fx2)
         | Inr data \<Rightarrow>
             (let fx3 = (if data \<noteq> [] then [Send \<lparr>FlagData = data, Source = URI rs2\<rparr>] else []);
                  rs3 = rs2\<lparr>ready := True\<rparr>;
                  rs4 = rs3\<lparr>Cron := Start (Cron rs3)\<rparr>
              in (None, rs4, fx0 @ fx1 @ fx2 @ fx3)))"

text \<open>
  \<^verbatim>\<open>Sync\<close>. The argument \<open>fires\<close> lists the server as seen at each firing of the
  scheduler between \<^verbatim>\<open>Cron.Start\<close> and the cancellation of the context; the function
  describes the calls of \<^verbatim>\<open>Sync\<close> whose context is cancelled after finitely many
  firings.
\<close>

definition Sync :: "libs \<Rightarrow> RedisClient \<Rightarrow> RedisClient list \<Rightarrow> Sync
                      \<Rightarrow> error option \<times> Sync \<times> effect list" where
  "Sync L client fires rs =
     (case Sync_start L client rs of
        (Some err, rs1, fx1) \<Rightarrow> (Some err, rs1, fx1)
      | (None, rs1, fx1) \<Rightarrow>
          (let (rs2, fx2) = run_cron L fires rs1;
               rs3 = rs2\<lparr>Cron := Stop (Cron rs2)\<rparr>
           in (None, rs3, fx1 @ fx2)))"

definition ReSync :: "libs \<Rightarrow> RedisClient \<Rightarrow> Sync \<Rightarrow> error option \<times> Sync \<times> effect list" where
  "ReSync L client rs =
     (let (r, rs', fx) = fetchData L client rs
      in case r of
           Inl err \<Rightarrow> (Some (fmt_Errorf ''Redis resync failed: '' err), rs', fx)
         | Inr data \<Rightarrow>
             (None, rs', fx @ (if data \<noteq> [] then [Send \<lparr>FlagData = data, Source = URI rs'\<rparr>]
                               else [])))"

definition Init :: "RedisClient \<Rightarrow> Sync \<Rightarrow> error option \<times> Sync \<times> effect list" where
  "Init client rs =
     (case Ping client of
        Some err \<Rightarrow> (Some (fmt_Errorf ''failed to connect to Redis: '' err), rs, [])
      | None \<Rightarrow> (None, rs, [Log_Info (''Redis sync provider initialized for key: '' @ Key rs)]))"

definition IsReady :: "Sync \<Rightarrow> bool" where
  "IsReady rs = ready rs"

definition SetInterval :: "32 word \<Rightarrow> Sync \<Rightarrow> Sync" where
  "SetInterval interval rs = rs\<lparr>Interval := interval\<rparr>"

text \<open>\<^verbatim>\<open>Close\<close>; the argument is \<open>None\<close> when the \<^verbatim>\<open>Client\<close> field is nil.\<close>

definition Close :: "RedisClient option \<Rightarrow> Sync \<Rightarrow> error option \<times> Sync" where
  "Close client rs =
     (case client of
        Some c \<Rightarrow> (Close_client c, rs)
      | None \<Rightarrow> (None, rs))"


section \<open>Construction\<close>

text \<open>
  The fields of \<^verbatim>\<open>*url.URL\<close> that \<^verbatim>\<open>NewRedisSync\<close> reads. \<open>User\<close> is the
  user name with the password when one is set; \<open>Query\<close> is the result of
  \<^verbatim>\<open>Query()\<close>, a \<^verbatim>\<open>url.Values\<close>.
\<close>

record URL =
  Scheme :: string
  Host :: string
  Path :: string
  User :: "(string \<times> string option) option"
  Query :: "string \<rightharpoonup> string list"

definition Values_Get :: "(string \<rightharpoonup> string list) \<Rightarrow> string \<Rightarrow> string" where
  "Values_Get v k = (case v k of None \<Rightarrow> [] | Some [] \<Rightarrow> [] | Some (x # xs) \<Rightarrow> x)"

definition TrimPrefix :: "string \<Rightarrow> string \<Rightarrow> string" where
  "TrimPrefix s p = (if take (length p) s = p then drop (length p) s else s)"

text \<open>\<^verbatim>\<open>strings.Split(host, ":")[0]\<close>: the bytes before the first colon.\<close>

definition Split_first :: "string \<Rightarrow> string" where
  "Split_first host = takeWhile (\<lambda>c. c \<noteq> CHR '':'') host"

text \<open>
  \<^verbatim>\<open>NewRedisSync\<close>. The standard-library functions \<^verbatim>\<open>url.Parse\<close> and
  \<^verbatim>\<open>strconv.Atoi\<close> are parameters. A result \<open>Inl err\<close> is the pair
  \<^verbatim>\<open>(nil, err)\<close>, a result \<open>Inr rs\<close> the pair \<^verbatim>\<open>(&rs, nil)\<close>.
\<close>

definition NewRedisSync ::
  "(string \<Rightarrow> error + URL) \<Rightarrow> (string \<Rightarrow> error + int) \<Rightarrow> string \<Rightarrow> error + Sync" where
  "NewRedisSync url_Parse Atoi uri =
     (case url_Parse uri of
        Inl err \<Rightarrow> Inl (fmt_Errorf ''invalid Redis URI: '' err)
      | Inr parsedURI \<Rightarrow>
          if Scheme parsedURI \<noteq> ''redis'' \<and> Scheme parsedURI \<noteq> ''rediss'' then
            Inl (errors_New (''unsupported scheme: '' @ Scheme parsedURI
                             @ '', expected redis or rediss''))
          else
            (let host = (if Host parsedURI = [] then ''localhost:6379'' else Host parsedURI);
                 database =
                   (if Path parsedURI \<noteq> [] \<and> Path parsedURI \<noteq> ''/'' then
                      (case Atoi (TrimPrefix (Path parsedURI) ''/'') of
                         Inr db \<Rightarrow> db
                       | Inl err \<Rightarrow> 0)
                    else 0);
                 password =
                   (case User parsedURI of
                      None \<Rightarrow> []
                    | Some (name, None) \<Rightarrow> []
                    | Some (name, Some pw) \<Rightarrow> pw);
                 key = Values_Get (Query parsedURI) ''key''
             in if key = [] then
                  Inl (errors_New (''Redis key must be specified in query parameter 'key'' @ [CHR 0x27]))
                else
                  (let useTLS = (Scheme parsedURI = ''rediss'');
                       opts = \<lparr>Addr = host, opt_Password = password, DB = database,
                               TLSConfig = (if useTLS then Some (Split_first host) else None)\<rparr>
                   in Inr \<lparr>URI = uri, Client = opts,
                           Cron = \<lparr>cron_entries = [], cron_running = False\<rparr>,
                           Key = key, Database = database, Password = password,
                           TLS = useTLS, Interval = 30, LastSHA = [], ready = False\<rparr>)))"

text \<open>The fields of \<^verbatim>\<open>sync.SourceConfig\<close> that \<^verbatim>\<open>NewRedisSyncFromConfig\<close> reads.\<close>

record SourceConfig =
  cfg_URI :: string
  cfg_Interval :: "32 word"
  cfg_TLS :: bool

definition NewRedisSyncFromConfig ::
  "(string \<Rightarrow> error + URL) \<Rightarrow> (string \<Rightarrow> error + int) \<Rightarrow> SourceConfig \<Rightarrow> error + Sync" where
  "NewRedisSyncFromConfig url_Parse Atoi config =
     (case NewRedisSync url_Parse Atoi (cfg_URI config) of
        Inl err \<Rightarrow> Inl err
      | Inr rs \<Rightarrow>
          (let rs1 = (if 0 < cfg_Interval config then SetInterval (cfg_Interval config) rs else rs);
               rs2 = (if cfg_TLS config then rs1\<lparr>TLS := True\<rparr> else rs1)
           in Inr rs2))"

section \<open>Cycles\<close>

text \<open>
  The three places that fetch and send: the initial fetch of \<^verbatim>\<open>Sync\<close>, the job run by
  the scheduler, and \<^verbatim>\<open>ReSync\<close>.
\<close>

datatype trigger = Initial | Periodic | OnDemand

definition cycle :: "libs \<Rightarrow> trigger \<Rightarrow> RedisClient \<Rightarrow> Sync \<Rightarrow> Sync \<times> effect list" where
  "cycle L t client rs =
     (case t of
        Initial \<Rightarrow> snd (Sync_start L client rs)
      | Periodic \<Rightarrow> cron_job L client rs
      | OnDemand \<Rightarrow> snd (ReSync L client rs))"

definition fetched :: "libs \<Rightarrow> RedisClient \<Rightarrow> Sync \<Rightarrow> error + string" where
  "fetched L client rs = fst (fetchData L client rs)"

fun run_cycles :: "libs \<Rightarrow> (trigger \<times> RedisClient) list \<Rightarrow> Sync \<Rightarrow> Sync" where
  "run_cycles L [] rs = rs"
| "run_cycles L ((t, client) # cs) rs = run_cycles L cs (fst (cycle L t client rs))"

text \<open>No cycle of the list fetches a non-empty payload: each fails or finds nothing.\<close>

fun no_payload :: "libs \<Rightarrow> (trigger \<times> RedisClient) list \<Rightarrow> Sync \<Rightarrow> bool" where
  "no_payload L [] rs = True"
| "no_payload L ((t, client) # cs) rs =
     ((case fetched L client rs of Inl err \<Rightarrow> True | Inr p \<Rightarrow> p = [])
      \<and> no_payload L cs (fst (cycle L t client rs)))"

text \<open>Every client of the list yields the payload \<open>p\<close> for the key of \<open>rs\<close>.\<close>

definition all_fetch :: "libs \<Rightarrow> RedisClient list \<Rightarrow> Sync \<Rightarrow> string \<Rightarrow> bool" where
  "all_fetch L cs rs p = list_all (\<lambda>client. fetched L client rs = Inr p) cs"

text \<open>The calls a user of the provider can make, and their effect on the receiver.\<close>

datatype operation =
    Op_Init RedisClient
  | Op_Sync RedisClient "RedisClient list"
  | Op_ReSync RedisClient
  | Op_Fire RedisClient
  | Op_SetInterval "32 word"
  | Op_Close "RedisClient option"

fun step :: "libs \<Rightarrow> operation \<Rightarrow> Sync \<Rightarrow> Sync" where
  "step L (Op_Init client) rs = fst (snd (Init client rs))"
| "step L (Op_Sync client fires) rs = fst (snd (Sync L client fires rs))"
| "step L (Op_ReSync client) rs = fst (snd (ReSync L client rs))"
| "step L (Op_Fire client) rs = fst (cron_fire L client rs)"
| "step L (Op_SetInterval interval) rs = SetInterval interval rs"
| "step L (Op_Close client) rs = snd (Close client rs)"

fun steps :: "libs \<Rightarrow> operation list \<Rightarrow> Sync \<Rightarrow> Sync" where
  "steps L [] rs = rs"
| "steps L (op # ops) rs = steps L ops (step L op rs)"


section \<open>The standalone service\<close>

text \<open>
  A buffered channel: its capacity and the values waiting in it. A send on a full channel
  that nobody receives from does not complete; \<open>None\<close> stands for a sender left blocked.
\<close>

record 'a chan =
  cap :: nat
  buf :: "'a list"

definition make_chan :: "nat \<Rightarrow> 'a chan" where
  "make_chan n = \<lparr>cap = n, buf = []\<rparr>"

definition chan_send :: "'a \<Rightarrow> 'a chan \<Rightarrow> 'a chan option" where
  "chan_send x ch = (if length (buf ch) < cap ch then Some (ch\<lparr>buf := buf ch @ [x]\<rparr>) else None)"

fun deliver :: "'a list \<Rightarrow> 'a chan \<Rightarrow> 'a chan option" where
  "deliver [] ch = Some ch"
| "deliver (x # xs) ch = (case chan_send x ch of None \<Rightarrow> None | Some ch' \<Rightarrow> deliver xs ch')"

fun is_Send :: "effect \<Rightarrow> bool" where
  "is_Send (Send d) = True"
| "is_Send e = False"

definition logged :: "effect list \<Rightarrow> effect list" where
  "logged fx = filter (\<lambda>e. \<not> is_Send e) fx"

text \<open>
  The \<^verbatim>\<open>Service\<close> struct: the provider and the flag store, which the evaluator
  updates. \<^verbatim>\<open>evaluator.SetState\<close> is a parameter: from the store and the data it
  gives the new store and either an error or the number of notifications with the
  resync-required flag.
\<close>

record 'st Service =
  redisSync :: Sync
  flagStore :: 'st

type_synonym 'st SetState = "'st \<Rightarrow> DataSync \<Rightarrow> 'st \<times> (error + nat \<times> bool)"

text \<open>
  The body of the goroutine that \<^verbatim>\<open>updateStoreFromSyncData\<close> starts when a resync is
  required: \<^verbatim>\<open>ReSync\<close> is called with \<^verbatim>\<open>make(chan coresync.DataSync, 1)\<close>, and
  a failure is logged. The result holds the provider afterwards, the lines logged, and
  the channel, which only this goroutine refers to.
\<close>

definition resync_task ::
  "libs \<Rightarrow> RedisClient \<Rightarrow> Sync \<Rightarrow> Sync \<times> effect list \<times> DataSync chan option" where
  "resync_task L client rs =
     (let ch = make_chan 1;
          (err, rs', fx) = ReSync L client rs;
          ch' = deliver (sent fx) ch
      in case err of
           Some e \<Rightarrow> (rs', logged fx @ [Log_Error (''Resync failed: '' @ Error e)], ch')
         | None \<Rightarrow> (rs', logged fx, ch'))"

text \<open>
  \<^verbatim>\<open>updateStoreFromSyncData\<close>. The goroutine is run to its end within the call; the
  last component of the result is the channel it leaves behind, if it was started.
\<close>

definition updateStoreFromSyncData ::
  "'st SetState \<Rightarrow> libs \<Rightarrow> RedisClient \<Rightarrow> 'st Service \<Rightarrow> DataSync
     \<Rightarrow> error option \<times> 'st Service \<times> effect list \<times> DataSync chan option option" where
  "updateStoreFromSyncData SetState L client s data =
     (if FlagData data = [] then
        (None, s, [Log_Debug ''Received empty flag data, skipping update''], None)
      else
        (let fx0 = [Log_Debug (''Updating store with '' @ fmt_d (length (FlagData data))
                               @ '' bytes of flag data'')];
             (store', r) = SetState (flagStore s) data
         in case r of
              Inl err \<Rightarrow>
                (Some (fmt_Errorf ''failed to update evaluator state: '' err),
                 s\<lparr>flagStore := store'\<rparr>, fx0, None)
            | Inr (notifications, resyncRequired) \<Rightarrow>
                (let fx1 = [Log_Debug (''Store updated successfully, '' @ fmt_d notifications
                                       @ '' flags changed, resync required: ''
                                       @ (if resyncRequired then ''true'' else ''false''))]
                 in if resyncRequired then
                      (let (rs', fx2, ch) = resync_task L client (redisSync s)
                       in (None, s\<lparr>flagStore := store', redisSync := rs'\<rparr>,
                           fx0 @ fx1 @ [Log_Info ''Resync required, triggering full resync...'']
                               @ fx2,
                           Some ch))
                    else (None, s\<lparr>flagStore := store'\<rparr>, fx0 @ fx1, None))))"

text \<open>
  \<^verbatim>\<open>processSyncData\<close>: the values received from the service's channel before the
  context is cancelled, each with the server as seen by a resync it may start. The last
  component collects the channels left behind by the resync goroutines.
\<close>

fun processSyncData ::
  "'st SetState \<Rightarrow> libs \<Rightarrow> (DataSync \<times> RedisClient) list \<Rightarrow> 'st Service
     \<Rightarrow> 'st Service \<times> effect list \<times> DataSync chan option list" where
  "processSyncData SetState L [] s = (s, [Log_Info ''Stopping sync data processor...''], [])"
| "processSyncData SetState L ((data, client) # rest) s =
     (let fx0 = [Log_Debug (''Received flag data from Redis: '' @ Source data)];
          (err, s', fx1, orphan) = updateStoreFromSyncData SetState L client s data;
          fx2 = (case err of
                   Some e \<Rightarrow> [Log_Error (''Failed to update store: '' @ Error e)]
                 | None \<Rightarrow> [Emit False (Source data)]);
          (s'', fx3, orphans) = processSyncData SetState L rest s'
      in (s'', fx0 @ fx1 @ fx2 @ fx3,
          (case orphan of None \<Rightarrow> [] | Some ch \<Rightarrow> [ch]) @ orphans))"

section \<open>Concrete values for evaluating the definitions\<close>

text \<open>
  An instance of the library parameters: JSON text is left as it is by the conversion, and
  the fingerprint is a stand-in for the encoded digest. The theorems below hold for every
  instance; this one serves to evaluate them on examples.
\<close>

definition example_libs :: libs where
  "example_libs = \<lparr>ConvertToJSON = (\<lambda>data ext mediaType. Inr data),
                    sha3_256 = (\<lambda>data. data),
                    base64_URLEncoding = (\<lambda>digest. ''sha:'' @ digest)\<rparr>"

text \<open>A server whose JSON module returns the document \<open>doc\<close> for every key.\<close>

definition json_server :: "string \<Rightarrow> RedisClient" where
  "json_server doc =
     \<lparr>JSONGet = (\<lambda>key path. \<lparr>JSONCmd_Err = None, JSONCmd_Result = (iface_string doc, None)\<rparr>),
      Get = (\<lambda>key. \<lparr>StringCmd_Err = None, StringCmd_Val = doc\<rparr>),
      Ping = None, Close_client = None\<rparr>"

text \<open>A server on which the key does not exist, and one that cannot be reached
  (the cases of \<^verbatim>\<open>TestRedisSync_fetchData\<close>).\<close>

definition empty_server :: RedisClient where
  "empty_server =
     \<lparr>JSONGet = (\<lambda>key path. \<lparr>JSONCmd_Err = Some redis_Nil, JSONCmd_Result = (iface_string [], Some redis_Nil)\<rparr>),
      Get = (\<lambda>key. \<lparr>StringCmd_Err = Some redis_Nil, StringCmd_Val = []\<rparr>),
      Ping = None, Close_client = None\<rparr>"

definition failing_server :: RedisClient where
  "failing_server =
     \<lparr>JSONGet = (\<lambda>key path. \<lparr>JSONCmd_Err = Some (errors_New ''connection error''),
                              JSONCmd_Result = (iface_string [], Some (errors_New ''connection error''))\<rparr>),
      Get = (\<lambda>key. \<lparr>StringCmd_Err = Some (errors_New ''connection error''), StringCmd_Val = []\<rparr>),
      Ping = Some (errors_New ''connection error''), Close_client = None\<rparr>"

text \<open>The values of \<^verbatim>\<open>url.Parse\<close> and \<^verbatim>\<open>strconv.Atoi\<close> on some connection strings.\<close>

definition example_parse :: "string \<Rightarrow> error + URL" where
  "example_parse uri =
     (if uri = ''redis://localhost:6379/0?key=flags'' then
        Inr \<lparr>Scheme = ''redis'', Host = ''localhost:6379'', Path = ''/0'', User = None,
             Query = [''key'' \<mapsto> [''flags'']]\<rparr>
      else if uri = ''redis://localhost:6379/abc?key=flags'' then
        Inr \<lparr>Scheme = ''redis'', Host = ''localhost:6379'', Path = ''/abc'', User = None,
             Query = [''key'' \<mapsto> [''flags'']]\<rparr>
      else if uri = ''redis://localhost:6379/0'' then
        Inr \<lparr>Scheme = ''redis'', Host = ''localhost:6379'', Path = ''/0'', User = None,
             Query = Map.empty\<rparr>
      else if uri = ''http://localhost:6379'' then
        Inr \<lparr>Scheme = ''http'', Host = ''localhost:6379'', Path = [], User = None,
             Query = Map.empty\<rparr>
      else Inl (errors_New ''parse error''))"

definition example_Atoi :: "string \<Rightarrow> error + int" where
  "example_Atoi s =
     (if s = ''0'' then Inr 0 else if s = ''1'' then Inr 1
      else Inl (errors_New ''invalid syntax''))"

text \<open>The provider that \<^verbatim>\<open>NewRedisSync\<close> returns for
  \<^verbatim>\<open>redis://localhost:6379/0?key=flags\<close>.\<close>

definition example_sync :: Sync where
  "example_sync =
     \<lparr>URI = ''redis://localhost:6379/0?key=flags'',
      Client = \<lparr>Addr = ''localhost:6379'', opt_Password = [], DB = 0, TLSConfig = None\<rparr>,
      Cron = \<lparr>cron_entries = [], cron_running = False\<rparr>,
      Key = ''flags'', Database = 0, Password = [], TLS = False, Interval = 30,
      LastSHA = [], ready = False\<rparr>"

text \<open>A store that keeps the last payload, and asks for a resync after every update.\<close>

definition example_SetState :: "string SetState" where
  "example_SetState store data = (FlagData data, Inr (1, True))"

section \<open>Basic facts about fetching\<close>

lemma sent_append: "sent (xs @ ys) = sent xs @ sent ys"
  by (induction xs rule: sent.induct) simp_all

lemma convert_and_hash_cases:
  "convert_and_hash L msg s rs = (r, rs') \<Longrightarrow>
     (case r of
        Inl e \<Rightarrow> rs' = rs
      | Inr p \<Rightarrow> rs' = (if p \<noteq> [] then rs\<lparr>LastSHA := generateSHA L p\<rparr> else rs))"
  by (auto simp: convert_and_hash_def split: sum.splits)

lemma fetchData_state:
  "fetchData L client rs = (r, rs', fx) \<Longrightarrow>
     (case r of
        Inl e \<Rightarrow> rs' = rs
      | Inr p \<Rightarrow> rs' = (if p \<noteq> [] then rs\<lparr>LastSHA := generateSHA L p\<rparr> else rs))"
  unfolding fetchData_def Let_def
  by (auto split: option.splits prod.splits iface.splits if_splits sum.splits
       dest: convert_and_hash_cases)

lemma fetchData_no_send: "fetchData L client rs = (r, rs', fx) \<Longrightarrow> sent fx = []"
  unfolding fetchData_def Let_def
  by (auto split: option.splits prod.splits iface.splits if_splits)

lemma convert_and_hash_fst:
  "fst (convert_and_hash L msg s rs) =
     (case ConvertToJSON L s ''.json'' ''application/json'' of
        Inl err \<Rightarrow> Inl (fmt_Errorf msg err) | Inr c \<Rightarrow> Inr c)"
  by (simp add: convert_and_hash_def split: sum.splits)

lemma fetched_Key:
  "Key rs = Key rs2 \<Longrightarrow> fetched L client rs = fetched L client rs2"
  unfolding fetched_def fetchData_def Let_def
  by (simp add: case_prod_beta convert_and_hash_fst
           split: option.splits prod.splits iface.splits)

text \<open>What a fetch does, by its result.\<close>

lemma fetchData_payload:
  assumes "fetched L client rs = Inr p" "p \<noteq> []"
  obtains fx where "fetchData L client rs = (Inr p, rs\<lparr>LastSHA := generateSHA L p\<rparr>, fx)"
    and "sent fx = []"
proof -
  obtain r rs' fx where f: "fetchData L client rs = (r, rs', fx)"
    by (cases "fetchData L client rs") auto
  with assms have r: "r = Inr p" by (simp add: fetched_def)
  from fetchData_state[OF f] r assms(2) have "rs' = rs\<lparr>LastSHA := generateSHA L p\<rparr>" by simp
  with f r fetchData_no_send[OF f] that show thesis by simp
qed

lemma fetchData_nothing:
  assumes "case fetched L client rs of Inl err \<Rightarrow> True | Inr p \<Rightarrow> p = []"
  obtains fx where "fetchData L client rs = (fetched L client rs, rs, fx)" and "sent fx = []"
proof -
  obtain r rs' fx where f: "fetchData L client rs = (r, rs', fx)"
    by (cases "fetchData L client rs") auto
  then have r: "fetched L client rs = r" by (simp add: fetched_def)
  from fetchData_state[OF f] r assms have "rs' = rs" by (auto split: sum.splits)
  with f r fetchData_no_send[OF f] that show thesis by simp
qed

lemma cron_job_payload:
  assumes "fetched L client rs = Inr p" "p \<noteq> []"
  shows "fst (cron_job L client rs) = rs\<lparr>LastSHA := generateSHA L p\<rparr>"
    and "sent (snd (cron_job L client rs)) =
           (if LastSHA rs = [] \<or> LastSHA rs \<noteq> generateSHA L p
            then [\<lparr>FlagData = p, Source = URI rs\<rparr>] else [])"
proof -
  from assms obtain fx where f: "fetchData L client rs = (Inr p, rs\<lparr>LastSHA := generateSHA L p\<rparr>, fx)"
    and s: "sent fx = []" by (rule fetchData_payload)
  show "fst (cron_job L client rs) = rs\<lparr>LastSHA := generateSHA L p\<rparr>"
    using f assms(2) by (simp add: cron_job_def Let_def)
  show "sent (snd (cron_job L client rs)) =
           (if LastSHA rs = [] \<or> LastSHA rs \<noteq> generateSHA L p
            then [\<lparr>FlagData = p, Source = URI rs\<rparr>] else [])"
    using f s assms(2) by (simp add: cron_job_def Let_def sent_append)
qed

lemma cron_job_nothing:
  assumes "case fetched L client rs of Inl err \<Rightarrow> True | Inr p \<Rightarrow> p = []"
  shows "fst (cron_job L client rs) = rs" and "sent (snd (cron_job L client rs)) = []"
proof -
  from assms obtain fx where f: "fetchData L client rs = (fetched L client rs, rs, fx)"
    and s: "sent fx = []" by (rule fetchData_nothing)
  show "fst (cron_job L client rs) = rs"
    using f assms by (simp add: cron_job_def Let_def split: sum.splits)
  show "sent (snd (cron_job L client rs)) = []"
    using f s assms by (simp add: cron_job_def Let_def sent_append split: sum.splits)
qed

lemma ReSync_payload:
  assumes "fetched L client rs = Inr p" "p \<noteq> []"
  shows "ReSync L client rs = (None, rs\<lparr>LastSHA := generateSHA L p\<rparr>, snd (snd (ReSync L client rs)))"
    and "sent (snd (snd (ReSync L client rs))) = [\<lparr>FlagData = p, Source = URI rs\<rparr>]"
proof -
  from assms obtain fx where f: "fetchData L client rs = (Inr p, rs\<lparr>LastSHA := generateSHA L p\<rparr>, fx)"
    and s: "sent fx = []" by (rule fetchData_payload)
  show "ReSync L client rs = (None, rs\<lparr>LastSHA := generateSHA L p\<rparr>, snd (snd (ReSync L client rs)))"
    using f assms(2) by (simp add: ReSync_def Let_def)
  show "sent (snd (snd (ReSync L client rs))) = [\<lparr>FlagData = p, Source = URI rs\<rparr>]"
    using f s assms(2) by (simp add: ReSync_def Let_def sent_append)
qed

lemma ReSync_nothing:
  assumes "case fetched L client rs of Inl err \<Rightarrow> True | Inr p \<Rightarrow> p = []"
  shows "fst (snd (ReSync L client rs)) = rs" and "sent (snd (snd (ReSync L client rs))) = []"
proof -
  from assms obtain fx where f: "fetchData L client rs = (fetched L client rs, rs, fx)"
    and s: "sent fx = []" by (rule fetchData_nothing)
  show "fst (snd (ReSync L client rs)) = rs"
    using f assms by (simp add: ReSync_def Let_def split: sum.splits)
  show "sent (snd (snd (ReSync L client rs))) = []"
    using f s assms by (simp add: ReSync_def Let_def sent_append split: sum.splits)
qed

lemma Sync_start_payload:
  assumes "fetched L client rs = Inr p" "p \<noteq> []"
  shows "fst (Sync_start L client rs) = None"
    and "fst (snd (Sync_start L client rs)) =
           rs\<lparr>Cron := Start (AddFunc (cron_spec (Interval rs)) (Cron rs)),
              LastSHA := generateSHA L p, ready := True\<rparr>"
    and "sent (snd (snd (Sync_start L client rs))) = [\<lparr>FlagData = p, Source = URI rs\<rparr>]"
proof -
  let ?rs1 = "rs\<lparr>Cron := AddFunc (cron_spec (Interval rs)) (Cron rs)\<rparr>"
  have "fetched L client ?rs1 = Inr p" using assms(1) fetched_Key[of ?rs1 rs] by simp
  from this assms(2) obtain fx where f: "fetchData L client ?rs1 = (Inr p, ?rs1\<lparr>LastSHA := generateSHA L p\<rparr>, fx)"
    and s: "sent fx = []" by (rule fetchData_payload)
  show "fst (Sync_start L client rs) = None"
    using f by (simp add: Sync_start_def Let_def)
  show "fst (snd (Sync_start L client rs)) =
           rs\<lparr>Cron := Start (AddFunc (cron_spec (Interval rs)) (Cron rs)),
              LastSHA := generateSHA L p, ready := True\<rparr>"
    using f by (simp add: Sync_start_def Let_def)
  show "sent (snd (snd (Sync_start L client rs))) = [\<lparr>FlagData = p, Source = URI rs\<rparr>]"
    using f s assms(2) by (simp add: Sync_start_def Let_def sent_append)
qed

lemma Sync_start_nothing:
  assumes "case fetched L client rs of Inl err \<Rightarrow> True | Inr p \<Rightarrow> p = []"
  shows "LastSHA (fst (snd (Sync_start L client rs))) = LastSHA rs"
    and "sent (snd (snd (Sync_start L client rs))) = []"
    and "Key (fst (snd (Sync_start L client rs))) = Key rs"
proof -
  let ?rs1 = "rs\<lparr>Cron := AddFunc (cron_spec (Interval rs)) (Cron rs)\<rparr>"
  have e: "fetched L client ?rs1 = fetched L client rs" using fetched_Key[of ?rs1 rs] by simp
  with assms have "case fetched L client ?rs1 of Inl err \<Rightarrow> True | Inr p \<Rightarrow> p = []" by simp
  then obtain fx where f: "fetchData L client ?rs1 = (fetched L client ?rs1, ?rs1, fx)"
    and s: "sent fx = []" by (rule fetchData_nothing)
  show "LastSHA (fst (snd (Sync_start L client rs))) = LastSHA rs"
    using f assms e by (simp add: Sync_start_def Let_def split: sum.splits)
  show "sent (snd (snd (Sync_start L client rs))) = []"
    using f s assms e by (simp add: Sync_start_def Let_def sent_append split: sum.splits)
  show "Key (fst (snd (Sync_start L client rs))) = Key rs"
    using f assms e by (simp add: Sync_start_def Let_def split: sum.splits)
qed


text \<open>Every method leaves the configuration of the provider alone: a fetch changes at most
  the fingerprint, and \<^verbatim>\<open>Sync\<close> changes the scheduler, the fingerprint and \<^verbatim>\<open>ready\<close>.\<close>

lemma fetchData_frame: "\<exists>sha. fst (snd (fetchData L client rs)) = rs\<lparr>LastSHA := sha\<rparr>"
proof -
  obtain r rs' fx where f: "fetchData L client rs = (r, rs', fx)"
    by (cases "fetchData L client rs") auto
  have "rs' = rs\<lparr>LastSHA := LastSHA rs'\<rparr>"
    using fetchData_state[OF f] by (auto split: sum.splits if_splits)
  with f show ?thesis by (auto intro: exI[of _ "LastSHA rs'"])
qed

lemma cron_job_frame: "\<exists>sha. fst (cron_job L client rs) = rs\<lparr>LastSHA := sha\<rparr>"
proof -
  obtain r rs' fx where f: "fetchData L client rs = (r, rs', fx)"
    by (cases "fetchData L client rs") auto
  have "fst (cron_job L client rs) = rs'"
    using f by (simp add: cron_job_def Let_def split: sum.splits)
  with fetchData_frame[of L client rs] f show ?thesis by simp
qed

lemma cron_fire_frame: "\<exists>sha. fst (cron_fire L client rs) = rs\<lparr>LastSHA := sha\<rparr>"
proof (cases "cron_running (Cron rs)")
  case True
  then show ?thesis using cron_job_frame[of L client rs] by (simp add: cron_fire_def)
next
  case False
  then show ?thesis by (auto simp: cron_fire_def intro: exI[of _ "LastSHA rs"])
qed

lemma run_cron_frame: "\<exists>sha. fst (run_cron L fires rs) = rs\<lparr>LastSHA := sha\<rparr>"
proof (induction fires arbitrary: rs)
  case Nil
  show ?case by (auto intro: exI[of _ "LastSHA rs"])
next
  case (Cons client fires)
  obtain sha where a: "fst (cron_fire L client rs) = rs\<lparr>LastSHA := sha\<rparr>"
    using cron_fire_frame by blast
  obtain sha' where b: "fst (run_cron L fires (rs\<lparr>LastSHA := sha\<rparr>)) = rs\<lparr>LastSHA := sha, LastSHA := sha'\<rparr>"
    using Cons.IH[of "rs\<lparr>LastSHA := sha\<rparr>"] by blast
  show ?case using a b by (auto simp: case_prod_beta Let_def)
qed

lemma ReSync_frame: "\<exists>sha. fst (snd (ReSync L client rs)) = rs\<lparr>LastSHA := sha\<rparr>"
proof -
  obtain r rs' fx where f: "fetchData L client rs = (r, rs', fx)"
    by (cases "fetchData L client rs") auto
  have "fst (snd (ReSync L client rs)) = rs'"
    using f by (simp add: ReSync_def Let_def split: sum.splits)
  with fetchData_frame[of L client rs] f show ?thesis by simp
qed

lemma Sync_start_frame:
  "\<exists>sha cr rd. fst (snd (Sync_start L client rs)) = rs\<lparr>Cron := cr, LastSHA := sha, ready := rd\<rparr>
               \<and> (ready rs \<longrightarrow> rd) \<and> (fst (Sync_start L client rs) = None \<longrightarrow> rd \<and> cron_running cr)"
proof -
  let ?rs1 = "rs\<lparr>Cron := AddFunc (cron_spec (Interval rs)) (Cron rs)\<rparr>"
  obtain r rs' fx where f: "fetchData L client ?rs1 = (r, rs', fx)"
    by (cases "fetchData L client ?rs1") auto
  obtain sha where s: "rs' = ?rs1\<lparr>LastSHA := sha\<rparr>"
    using fetchData_frame[of L client ?rs1] f by auto
  show ?thesis
  proof (cases r)
    case (Inl err)
    then have "fst (snd (Sync_start L client rs)) = rs' \<and> fst (Sync_start L client rs) \<noteq> None"
      using f by (simp add: Sync_start_def Let_def)
    with s show ?thesis
      by (auto intro!: exI[of _ sha] exI[of _ "AddFunc (cron_spec (Interval rs)) (Cron rs)"]
               exI[of _ "ready rs"])
  next
    case (Inr d)
    then have "fst (snd (Sync_start L client rs)) = rs'\<lparr>ready := True, Cron := Start (Cron rs')\<rparr>"
      using f by (simp add: Sync_start_def Let_def)
    with s show ?thesis
      by (auto simp: Start_def intro!: exI[of _ sha] exI[of _ True]
               exI[of _ "Start (AddFunc (cron_spec (Interval rs)) (Cron rs))"])
  qed
qed

lemma Sync_frame:
  "\<exists>sha cr rd. fst (snd (Sync L client fires rs)) = rs\<lparr>Cron := cr, LastSHA := sha, ready := rd\<rparr>
               \<and> (ready rs \<longrightarrow> rd) \<and> (fst (Sync L client fires rs) = None \<longrightarrow> rd \<and> \<not> cron_running cr)"
proof -
  obtain e rs1 fx1 where st: "Sync_start L client rs = (e, rs1, fx1)"
    by (cases "Sync_start L client rs") auto
  obtain sha cr rd where a: "rs1 = rs\<lparr>Cron := cr, LastSHA := sha, ready := rd\<rparr>"
    and b: "ready rs \<longrightarrow> rd" and c: "e = None \<longrightarrow> rd \<and> cron_running cr"
    using Sync_start_frame[of L client rs] st by auto
  show ?thesis
  proof (cases e)
    case (Some err)
    then have "Sync L client fires rs = (Some err, rs1, fx1)"
      using st by (simp add: Sync_def)
    with a b show ?thesis by auto
  next
    case None
    obtain sha' where d: "fst (run_cron L fires rs1) = rs1\<lparr>LastSHA := sha'\<rparr>"
      using run_cron_frame by blast
    have "fst (snd (Sync L client fires rs)) = (rs1\<lparr>LastSHA := sha'\<rparr>)\<lparr>Cron := Stop (Cron rs1)\<rparr>"
      and "fst (Sync L client fires rs) = None"
      using st None d by (simp_all add: Sync_def Let_def case_prod_beta)
    with a b c None show ?thesis
      by (auto simp: Stop_def intro!: exI[of _ sha'] exI[of _ "Stop cr"] exI[of _ rd])
  qed
qed

section \<open>Absent key\<close>

text \<open>
  C4. If both \<^verbatim>\<open>JSON.GET\<close> and the fallback \<^verbatim>\<open>GET\<close> report \<^verbatim>\<open>redis.Nil\<close> for the
  configured key, \<^verbatim>\<open>fetchData\<close> returns the empty string and no error (and leaves the
  provider as it was), the cycle around it sends nothing, whichever of the three it is,
  and the initial cycle of \<^verbatim>\<open>Sync\<close> still succeeds and sets \<^verbatim>\<open>ready\<close>.
\<close>

theorem missing_key_is_empty_fetch:
  assumes "JSONCmd_Err (JSONGet client (Key rs) ''.'') = Some redis_Nil"
    and "StringCmd_Err (Get client (Key rs)) = Some redis_Nil"
  shows "fetchData L client rs = (Inr [], rs, [])
       \<and> sent (snd (cycle L t client rs)) = []
       \<and> fst (Sync_start L client rs) = None
       \<and> ready (fst (snd (Sync_start L client rs)))
       \<and> fst (Sync L client fires rs) = None
       \<and> ready (fst (snd (Sync L client fires rs)))"
proof -
  have f: "fetchData L client rs = (Inr [], rs, [])"
    using assms by (simp add: fetchData_def)
  then have e: "case fetched L client rs of Inl err \<Rightarrow> True | Inr p \<Rightarrow> p = []"
    by (simp add: fetched_def)
  have c: "sent (snd (cycle L t client rs)) = []"
    using cron_job_nothing(2)[OF e] ReSync_nothing(2)[OF e] Sync_start_nothing(2)[OF e]
    by (cases t) (simp_all add: cycle_def)
  let ?rs1 = "rs\<lparr>Cron := AddFunc (cron_spec (Interval rs)) (Cron rs)\<rparr>"
  have f1: "fetchData L client ?rs1 = (Inr [], ?rs1, [])"
    using assms by (simp add: fetchData_def)
  have s: "fst (Sync_start L client rs) = None" "ready (fst (snd (Sync_start L client rs)))"
    using f1 by (simp_all add: Sync_start_def Let_def)
  have n: "fst (Sync L client fires rs) = None"
    using s(1) by (cases "Sync_start L client rs") (auto simp: Sync_def Let_def split: prod.splits)
  have "fst (Sync L client fires rs) = None \<and> ready (fst (snd (Sync L client fires rs)))"
    using n Sync_frame[of L client fires rs] by auto
  with f c s show ?thesis by simp
qed

theorem missing_key_is_empty_fetch_witness:
  "fetchData example_libs empty_server example_sync = (Inr [], example_sync, [])
   \<and> sent (snd (cycle example_libs Periodic empty_server example_sync)) = []
   \<and> ready (fst (snd (Sync_start example_libs empty_server example_sync)))"
  using missing_key_is_empty_fetch[of empty_server example_sync example_libs Periodic "[]"]
  by (simp add: empty_server_def)

section \<open>Results of construction\<close>

lemma NewRedisSync_initial:
  "NewRedisSync url_Parse Atoi uri = Inr rs \<Longrightarrow>
     URI rs = uri \<and> LastSHA rs = [] \<and> \<not> ready rs \<and> Key rs \<noteq> [] \<and> Interval rs = 30
     \<and> \<not> cron_running (Cron rs)"
  by (auto simp: NewRedisSync_def Let_def split: sum.splits if_splits)

lemma example_sync_constructed:
  "NewRedisSync example_parse example_Atoi ''redis://localhost:6379/0?key=flags'' = Inr example_sync"
  by (simp add: NewRedisSync_def Let_def example_parse_def example_Atoi_def Values_Get_def TrimPrefix_def
        example_sync_def)




text \<open>
  C8. For every connection string that construction accepts and whose path is empty, is
  \<^verbatim>\<open>/\<close>, or has after its leading slash a text that \<^verbatim>\<open>strconv.Atoi\<close> rejects, the
  database index of the provider (and of the client options) is 0.
\<close>

theorem database_defaults_to_zero:
  assumes "NewRedisSync url_Parse Atoi uri = Inr rs" and "url_Parse uri = Inr u"
    and "Path u = [] \<or> Path u = ''/'' \<or> isl (Atoi (TrimPrefix (Path u) ''/''))"
  shows "Database rs = 0 \<and> DB (Client rs) = 0"
  using assms by (auto simp: NewRedisSync_def Let_def split: sum.splits if_splits)

theorem database_defaults_to_zero_witness:
  "Database (projr (NewRedisSync example_parse example_Atoi ''redis://localhost:6379/abc?key=flags'')) = 0
   \<and> isl (example_Atoi (TrimPrefix ''/abc'' ''/''))
   \<and> \<not> isl (NewRedisSync example_parse example_Atoi ''redis://localhost:6379/abc?key=flags'')"
  using database_defaults_to_zero[of example_parse example_Atoi
      "''redis://localhost:6379/abc?key=flags''"
      "projr (NewRedisSync example_parse example_Atoi ''redis://localhost:6379/abc?key=flags'')"
      "\<lparr>Scheme = ''redis'', Host = ''localhost:6379'', Path = ''/abc'', User = None,
             Query = [''key'' \<mapsto> [''flags'']]\<rparr>"]
  by (simp add: NewRedisSync_def Let_def example_parse_def example_Atoi_def Values_Get_def TrimPrefix_def)

section \<open>Readiness\<close>

lemma step_ready: "ready rs \<Longrightarrow> ready (step L op rs)"
proof (cases op)
  case (Op_Init client)
  then show ?thesis if "ready rs" using that by (simp add: Init_def split: option.splits)
next
  case (Op_Sync client fires)
  obtain sha cr rd where "fst (snd (Sync L client fires rs)) = rs\<lparr>Cron := cr, LastSHA := sha, ready := rd\<rparr>"
    and "ready rs \<longrightarrow> rd"
    using Sync_frame[of L client fires rs] by auto
  with Op_Sync show ?thesis if "ready rs" using that by simp
next
  case (Op_ReSync client)
  obtain sha where "fst (snd (ReSync L client rs)) = rs\<lparr>LastSHA := sha\<rparr>"
    using ReSync_frame by blast
  with Op_ReSync show ?thesis if "ready rs" using that by simp
next
  case (Op_Fire client)
  obtain sha where "fst (cron_fire L client rs) = rs\<lparr>LastSHA := sha\<rparr>"
    using cron_fire_frame by blast
  with Op_Fire show ?thesis if "ready rs" using that by simp
next
  case (Op_SetInterval interval)
  then show ?thesis if "ready rs" using that by (simp add: SetInterval_def)
next
  case (Op_Close client)
  then show ?thesis if "ready rs" using that by (simp add: Close_def split: option.splits)
qed

lemma steps_ready: "ready rs \<Longrightarrow> ready (steps L ops rs)"
  by (induction ops arbitrary: rs) (simp_all add: step_ready)

text \<open>
  C3, as stated, fails for \<^verbatim>\<open>ReSync\<close>: a successful \<^verbatim>\<open>ReSync\<close> on a provider that
  is not ready leaves it not ready. Only \<^verbatim>\<open>Sync\<close> assigns \<^verbatim>\<open>ready\<close>.
\<close>

theorem resync_leaves_unready_counterexample:
  "fst (ReSync example_libs (json_server ''{}'') example_sync) = None
   \<and> \<not> ready (fst (snd (ReSync example_libs (json_server ''{}'') example_sync)))"
  by (simp add: ReSync_def fetchData_def json_server_def example_libs_def example_sync_def
        convert_and_hash_def generateSHA_def Let_def)

text \<open>
  C3, amended. A successful initial cycle of \<^verbatim>\<open>Sync\<close> sets \<^verbatim>\<open>ready\<close>, whether or not
  it sent anything, and so does every \<^verbatim>\<open>Sync\<close> that returns nil; \<^verbatim>\<open>ReSync\<close> and the
  periodic job leave \<^verbatim>\<open>ready\<close> as it is; and once \<^verbatim>\<open>ready\<close> is true it stays true under
  every sequence of calls of \<^verbatim>\<open>Init\<close>, \<^verbatim>\<open>Sync\<close>, \<^verbatim>\<open>ReSync\<close>, \<^verbatim>\<open>SetInterval\<close>,
  \<^verbatim>\<open>Close\<close> and firings of the scheduler.
\<close>

theorem readiness_latch:
  "(fst (Sync_start L client rs) = None \<longrightarrow> ready (fst (snd (Sync_start L client rs))))
   \<and> (fst (Sync L client fires rs) = None \<longrightarrow> ready (fst (snd (Sync L client fires rs))))
   \<and> ready (fst (snd (ReSync L client rs))) = ready rs
   \<and> ready (fst (cron_job L client rs)) = ready rs
   \<and> (ready rs \<longrightarrow> ready (steps L ops rs))"
proof -
  obtain sha cr rd where
    a: "fst (snd (Sync_start L client rs)) = rs\<lparr>Cron := cr, LastSHA := sha, ready := rd\<rparr>"
    and b: "fst (Sync_start L client rs) = None \<longrightarrow> rd \<and> cron_running cr"
    using Sync_start_frame[of L client rs] by auto
  obtain sha' cr' rd' where
    c: "fst (snd (Sync L client fires rs)) = rs\<lparr>Cron := cr', LastSHA := sha', ready := rd'\<rparr>"
    and d: "fst (Sync L client fires rs) = None \<longrightarrow> rd' \<and> \<not> cron_running cr'"
    using Sync_frame[of L client fires rs] by auto
  obtain sha2 where e: "fst (snd (ReSync L client rs)) = rs\<lparr>LastSHA := sha2\<rparr>"
    using ReSync_frame by blast
  obtain sha3 where f: "fst (cron_job L client rs) = rs\<lparr>LastSHA := sha3\<rparr>"
    using cron_job_frame by blast
  show ?thesis using a b c d e f steps_ready[of rs L ops] by simp
qed

theorem readiness_latch_witness:
  "ready (fst (snd (Sync_start example_libs empty_server example_sync)))
   \<and> ready (steps example_libs [Op_ReSync failing_server, Op_Fire failing_server]
        (fst (snd (Sync_start example_libs empty_server example_sync))))"
  using readiness_latch[of example_libs empty_server example_sync "[]" "[]"]
    readiness_latch[of example_libs empty_server
      "fst (snd (Sync_start example_libs empty_server example_sync))" "[]"
      "[Op_ReSync failing_server, Op_Fire failing_server]"]
  by (simp add: Sync_start_def fetchData_def empty_server_def example_sync_def Let_def)

section \<open>Failures and cancellation in \<^verbatim>\<open>Sync\<close>\<close>

lemma run_cron_append:
  "run_cron L (xs @ ys) rs =
     (fst (run_cron L ys (fst (run_cron L xs rs))),
      snd (run_cron L xs rs) @ snd (run_cron L ys (fst (run_cron L xs rs))))"
  by (induction xs arbitrary: rs) (simp_all add: case_prod_beta Let_def)


lemma cron_job_failure:
  assumes "fetched L client rs = Inl err"
  shows "fst (cron_job L client rs) = rs"
    and "sent (snd (cron_job L client rs)) = []"
    and "Log_Error (''error fetching from Redis: '' @ Error err) \<in> set (snd (cron_job L client rs))"
proof -
  from assms have e: "case fetched L client rs of Inl err \<Rightarrow> True | Inr p \<Rightarrow> p = []" by simp
  show "fst (cron_job L client rs) = rs" "sent (snd (cron_job L client rs)) = []"
    using cron_job_nothing[OF e] by simp_all
  obtain fx where f: "fetchData L client rs = (fetched L client rs, rs, fx)"
    using e by (rule fetchData_nothing)
  show "Log_Error (''error fetching from Redis: '' @ Error err) \<in> set (snd (cron_job L client rs))"
    using f assms by (simp add: cron_job_def Let_def)
qed

lemma run_cron_skip_failure:
  assumes "fetched L client rs = Inl err"
  shows "fst (run_cron L (fs1 @ client # fs2) rs) = fst (run_cron L (fs1 @ fs2) rs)
       \<and> sent (snd (run_cron L (fs1 @ client # fs2) rs)) = sent (snd (run_cron L (fs1 @ fs2) rs))"
proof -
  let ?rs1 = "fst (run_cron L fs1 rs)"
  obtain sha where "?rs1 = rs\<lparr>LastSHA := sha\<rparr>" using run_cron_frame by blast
  then have "Key ?rs1 = Key rs" by simp
  then have f: "fetched L client ?rs1 = Inl err" using assms fetched_Key[of ?rs1 rs] by simp
  have "fst (cron_fire L client ?rs1) = ?rs1 \<and> sent (snd (cron_fire L client ?rs1)) = []"
    using cron_job_failure(1,2)[OF f] by (simp add: cron_fire_def)
  then show ?thesis
    by (simp add: run_cron_append case_prod_beta Let_def sent_append)
qed

lemma Sync_result:
  "fst (Sync L client fires rs) =
     (case fetched L client rs of
        Inl err \<Rightarrow> Some (fmt_Errorf ''initial Redis fetch failed: '' err)
      | Inr d \<Rightarrow> None)"
proof -
  let ?rs1 = "rs\<lparr>Cron := AddFunc (cron_spec (Interval rs)) (Cron rs)\<rparr>"
  have e: "fetched L client ?rs1 = fetched L client rs" using fetched_Key[of ?rs1 rs] by simp
  obtain r rs' fx where f: "fetchData L client ?rs1 = (r, rs', fx)"
    by (cases "fetchData L client ?rs1") auto
  then have "fetched L client rs = r" using e by (simp add: fetched_def)
  then show ?thesis using f
    by (cases r) (simp_all add: Sync_def Sync_start_def Let_def case_prod_beta)
qed

text \<open>
  C5. \<^verbatim>\<open>Sync\<close> returns an error exactly when its initial fetch fails, whatever happens
  in the periodic cycles. A periodic cycle whose fetch or conversion fails logs the error,
  sends nothing and leaves the provider as it was; the cycles after it run as if it had
  not happened: result, final provider and values sent by \<^verbatim>\<open>Sync\<close> are those of the
  run without the failing cycle.
\<close>

theorem only_initial_fetch_is_fatal:
  "fst (Sync L client fires rs) =
     (case fetched L client rs of
        Inl err \<Rightarrow> Some (fmt_Errorf ''initial Redis fetch failed: '' err)
      | Inr d \<Rightarrow> None)
   \<and> (fetched L bad rs = Inl err \<longrightarrow>
        fst (cron_job L bad rs) = rs
      \<and> sent (snd (cron_job L bad rs)) = []
      \<and> Log_Error (''error fetching from Redis: '' @ Error err) \<in> set (snd (cron_job L bad rs))
      \<and> fst (Sync L client (fs1 @ bad # fs2) rs) = fst (Sync L client (fs1 @ fs2) rs)
      \<and> fst (snd (Sync L client (fs1 @ bad # fs2) rs)) = fst (snd (Sync L client (fs1 @ fs2) rs))
      \<and> sent (snd (snd (Sync L client (fs1 @ bad # fs2) rs)))
          = sent (snd (snd (Sync L client (fs1 @ fs2) rs))))"
proof (intro conjI impI)
  show "fst (Sync L client fires rs) =
     (case fetched L client rs of
        Inl err \<Rightarrow> Some (fmt_Errorf ''initial Redis fetch failed: '' err)
      | Inr d \<Rightarrow> None)" by (rule Sync_result)
next
  assume b: "fetched L bad rs = Inl err"
  show "fst (cron_job L bad rs) = rs" "sent (snd (cron_job L bad rs)) = []"
    "Log_Error (''error fetching from Redis: '' @ Error err) \<in> set (snd (cron_job L bad rs))"
    using cron_job_failure[OF b] by simp_all
  show "fst (Sync L client (fs1 @ bad # fs2) rs) = fst (Sync L client (fs1 @ fs2) rs)"
    by (simp add: Sync_result)
  obtain e rs1 fx1 where st: "Sync_start L client rs = (e, rs1, fx1)"
    by (cases "Sync_start L client rs") auto
  obtain sha cr rd where "rs1 = rs\<lparr>Cron := cr, LastSHA := sha, ready := rd\<rparr>"
    using Sync_start_frame[of L client rs] st by auto
  then have "Key rs1 = Key rs" by simp
  then have "fetched L bad rs1 = Inl err" using b fetched_Key[of rs1 rs] by simp
  note k = run_cron_skip_failure[OF this, of fs1 fs2]
  show "fst (snd (Sync L client (fs1 @ bad # fs2) rs)) = fst (snd (Sync L client (fs1 @ fs2) rs))"
    using st k by (cases e) (simp_all add: Sync_def Let_def case_prod_beta)
  show "sent (snd (snd (Sync L client (fs1 @ bad # fs2) rs)))
          = sent (snd (snd (Sync L client (fs1 @ fs2) rs)))"
    using st k by (cases e) (simp_all add: Sync_def Let_def case_prod_beta sent_append)
qed

theorem only_initial_fetch_is_fatal_witness:
  "fetched example_libs failing_server example_sync
     = Inl (fmt_Errorf ''failed to get data from Redis: '' (errors_New ''connection error''))
   \<and> fst (Sync example_libs failing_server [] example_sync)
     = Some (fmt_Errorf ''initial Redis fetch failed: ''
              (fmt_Errorf ''failed to get data from Redis: '' (errors_New ''connection error'')))
   \<and> fst (Sync example_libs (json_server ''{}'') [failing_server, json_server ''[]''] example_sync)
     = None
   \<and> fst (cron_job example_libs failing_server example_sync) = example_sync
   \<and> sent (snd (snd (Sync example_libs (json_server ''{}'') [failing_server, json_server ''[]'']
        example_sync)))
     = sent (snd (snd (Sync example_libs (json_server ''{}'') [json_server ''[]''] example_sync)))"
  using only_initial_fetch_is_fatal[of example_libs failing_server "[]" example_sync
      failing_server
      "fmt_Errorf ''failed to get data from Redis: '' (errors_New ''connection error'')" "[]" "[]"]
    only_initial_fetch_is_fatal[of example_libs "json_server ''{}''"
      "[failing_server, json_server ''[]'']" example_sync failing_server
      "fmt_Errorf ''failed to get data from Redis: '' (errors_New ''connection error'')"
      "[]" "[json_server ''[]'']"]
  by (simp add: fetched_def fetchData_def failing_server_def json_server_def example_libs_def
        example_sync_def convert_and_hash_def Let_def)



section \<open>Change detection\<close>

lemma cycle_payload:
  assumes "fetched L client rs = Inr p" "p \<noteq> []"
  shows "LastSHA (fst (cycle L t client rs)) = generateSHA L p"
    and "URI (fst (cycle L t client rs)) = URI rs"
    and "Key (fst (cycle L t client rs)) = Key rs"
    and "sent (snd (cycle L t client rs)) =
           (if t = Periodic \<and> LastSHA rs \<noteq> [] \<and> LastSHA rs = generateSHA L p then []
            else [\<lparr>FlagData = p, Source = URI rs\<rparr>])"
proof -
  note a = cron_job_payload[OF assms] ReSync_payload[OF assms] Sync_start_payload[OF assms]
  have r: "fst (snd (ReSync L client rs)) = rs\<lparr>LastSHA := generateSHA L p\<rparr>"
    using a(3) by (metis fst_conv snd_conv)
  show "LastSHA (fst (cycle L t client rs)) = generateSHA L p"
    using a r by (cases t) (simp_all add: cycle_def)
  show "URI (fst (cycle L t client rs)) = URI rs"
    using a r by (cases t) (simp_all add: cycle_def)
  show "Key (fst (cycle L t client rs)) = Key rs"
    using a r by (cases t) (simp_all add: cycle_def)
  show "sent (snd (cycle L t client rs)) =
           (if t = Periodic \<and> LastSHA rs \<noteq> [] \<and> LastSHA rs = generateSHA L p then []
            else [\<lparr>FlagData = p, Source = URI rs\<rparr>])"
    using a by (cases t) (auto simp: cycle_def)
qed

lemma cycle_nothing:
  assumes "case fetched L client rs of Inl err \<Rightarrow> True | Inr p \<Rightarrow> p = []"
  shows "LastSHA (fst (cycle L t client rs)) = LastSHA rs"
    and "URI (fst (cycle L t client rs)) = URI rs"
    and "sent (snd (cycle L t client rs)) = []"
proof -
  note a = cron_job_nothing[OF assms] ReSync_nothing[OF assms] Sync_start_nothing[OF assms]
  obtain sha cr rd where
    f: "fst (snd (Sync_start L client rs)) = rs\<lparr>Cron := cr, LastSHA := sha, ready := rd\<rparr>"
    using Sync_start_frame[of L client rs] by auto
  show "LastSHA (fst (cycle L t client rs)) = LastSHA rs"
    using a by (cases t) (simp_all add: cycle_def)
  show "URI (fst (cycle L t client rs)) = URI rs"
    using a f by (cases t) (simp_all add: cycle_def)
  show "sent (snd (cycle L t client rs)) = []"
    using a by (cases t) (simp_all add: cycle_def)
qed

lemma no_payload_run:
  "no_payload L pre rs \<Longrightarrow>
     LastSHA (run_cycles L pre rs) = LastSHA rs \<and> URI (run_cycles L pre rs) = URI rs"
proof (induction pre arbitrary: rs)
  case Nil
  show ?case by simp
next
  case (Cons tc pre)
  obtain t client where tc: "tc = (t, client)" by (cases tc)
  from Cons.prems tc
  have e: "case fetched L client rs of Inl err \<Rightarrow> True | Inr p \<Rightarrow> p = []"
    and n: "no_payload L pre (fst (cycle L t client rs))" by simp_all
  show ?case
    using Cons.IH[OF n] cycle_nothing(1,2)[OF e, of t] tc by simp
qed

lemma run_cron_same_payload:
  assumes "LastSHA rs = generateSHA L p" "generateSHA L p \<noteq> []" "p \<noteq> []"
    and "all_fetch L cs rs p"
  shows "fst (run_cron L cs rs) = rs \<and> sent (snd (run_cron L cs rs)) = []"
  using assms(4)
proof (induction cs)
  case Nil
  show ?case by simp
next
  case (Cons client cs)
  then have f: "fetched L client rs = Inr p" and r: "all_fetch L cs rs p"
    by (simp_all add: all_fetch_def)
  have "fst (cron_fire L client rs) = rs \<and> sent (snd (cron_fire L client rs)) = []"
    using cron_job_payload[OF f assms(3)] assms(1,2) by (simp add: cron_fire_def)
  with Cons.IH[OF r] show ?case by (simp add: case_prod_beta Let_def sent_append)
qed

lemmas eval_defs =
  Sync_def Sync_start_def ReSync_def cron_job_def cron_fire_def cycle_def fetched_def
  fetchData_def convert_and_hash_def generateSHA_def Let_def AddFunc_def Start_def Stop_def
  json_server_def empty_server_def failing_server_def example_libs_def example_sync_def
  all_fetch_def

text \<open>
  C1, as stated, fails: \<^verbatim>\<open>ReSync\<close> (like the initial fetch of \<^verbatim>\<open>Sync\<close>) sends every
  non-empty payload it fetches without consulting the fingerprint. The initial cycle of
  \<^verbatim>\<open>Sync\<close> followed by a \<^verbatim>\<open>ReSync\<close> that fetches the same payload sends it twice.
\<close>

theorem resync_reemits_counterexample:
  "fetched example_libs (json_server ''{}'') example_sync = Inr ''{}''
   \<and> fst (Sync example_libs (json_server ''{}'') [] example_sync) = None
   \<and> fst (ReSync example_libs (json_server ''{}'')
            (fst (snd (Sync example_libs (json_server ''{}'') [] example_sync)))) = None
   \<and> sent (snd (snd (Sync example_libs (json_server ''{}'') [] example_sync)))
     @ sent (snd (snd (ReSync example_libs (json_server ''{}'')
            (fst (snd (Sync example_libs (json_server ''{}'') [] example_sync))))))
     = [\<lparr>FlagData = ''{}'', Source = ''redis://localhost:6379/0?key=flags''\<rparr>,
        \<lparr>FlagData = ''{}'', Source = ''redis://localhost:6379/0?key=flags''\<rparr>]"
  by (simp add: Sync_def Sync_start_def ReSync_def fetched_def fetchData_def json_server_def
        example_libs_def example_sync_def convert_and_hash_def generateSHA_def Let_def
        AddFunc_def Start_def Stop_def)

text \<open>
  C1, amended. Take two consecutive cycles that fetch the same non-empty payload, the
  fingerprint of which is not the empty string. The first sends the payload once, unless it
  is a periodic cycle that finds the stored fingerprint equal to the payload's. The second
  sends nothing when it is a periodic cycle, and sends the payload again when it is the
  initial fetch of \<^verbatim>\<open>Sync\<close> or a \<^verbatim>\<open>ReSync\<close>. Periodic cycles that follow and fetch the
  same payload send nothing.
\<close>

theorem unchanged_payload_not_resent:
  assumes "fetched L c1 rs = Inr p" and "p \<noteq> []" and "generateSHA L p \<noteq> []"
    and "fetched L c2 (fst (cycle L t c1 rs)) = Inr p"
    and "all_fetch L cs (fst (cycle L t c1 rs)) p"
  shows "sent (snd (cycle L t c1 rs)) =
           (if t = Periodic \<and> LastSHA rs \<noteq> [] \<and> LastSHA rs = generateSHA L p then []
            else [\<lparr>FlagData = p, Source = URI rs\<rparr>])
       \<and> sent (snd (cycle L t2 c2 (fst (cycle L t c1 rs)))) =
           (if t2 = Periodic then [] else [\<lparr>FlagData = p, Source = URI rs\<rparr>])
       \<and> sent (snd (run_cron L cs (fst (cycle L t c1 rs)))) = []"
proof -
  let ?rs1 = "fst (cycle L t c1 rs)"
  note a = cycle_payload[OF assms(1,2), of t]
  note b = cycle_payload(4)[OF assms(4) assms(2), of t2]
  have "sent (snd (cycle L t2 c2 ?rs1)) =
           (if t2 = Periodic then [] else [\<lparr>FlagData = p, Source = URI rs\<rparr>])"
    using a(1,2) b assms(3) by simp
  moreover have "sent (snd (run_cron L cs ?rs1)) = []"
    using run_cron_same_payload[OF a(1) assms(3) assms(2) assms(5)] by simp
  ultimately show ?thesis using a(4) by simp
qed

theorem unchanged_payload_not_resent_witness:
  "fetched example_libs (json_server ''{}'') example_sync = Inr ''{}''
   \<and> generateSHA example_libs ''{}'' \<noteq> []
   \<and> sent (snd (cycle example_libs Initial (json_server ''{}'') example_sync))
       = [\<lparr>FlagData = ''{}'', Source = URI example_sync\<rparr>]
   \<and> sent (snd (cycle example_libs Periodic (json_server ''{}'')
         (fst (cycle example_libs Initial (json_server ''{}'') example_sync)))) = []
   \<and> sent (snd (run_cron example_libs [json_server ''{}'', json_server ''{}'']
         (fst (cycle example_libs Initial (json_server ''{}'') example_sync)))) = []"
  using unchanged_payload_not_resent[of example_libs "json_server ''{}''" example_sync "''{}''"
      "json_server ''{}''" Initial "[json_server ''{}'', json_server ''{}'']" Periodic]
  by (simp add: eval_defs)

text \<open>
  C2. On a provider made by \<^verbatim>\<open>NewRedisSync\<close>, after any cycles none of which fetched a
  non-empty payload, the first cycle that does, of whichever kind, sends exactly one value:
  that payload with the connection string as source. For the initial fetch of \<^verbatim>\<open>Sync\<close>
  and for \<^verbatim>\<open>ReSync\<close> this holds in every state of the provider.
\<close>

theorem first_fetch_emits:
  assumes "NewRedisSync url_Parse Atoi uri = Inr rs0" and "no_payload L pre rs0"
    and "fetched L client (run_cycles L pre rs0) = Inr p" and "p \<noteq> []"
  shows "sent (snd (cycle L t client (run_cycles L pre rs0))) = [\<lparr>FlagData = p, Source = uri\<rparr>]
       \<and> (t' \<noteq> Periodic \<and> fetched L client rs = Inr p \<longrightarrow>
            sent (snd (cycle L t' client rs)) = [\<lparr>FlagData = p, Source = URI rs\<rparr>])"
proof -
  have i: "URI rs0 = uri" "LastSHA rs0 = []" using NewRedisSync_initial[OF assms(1)] by simp_all
  have "LastSHA (run_cycles L pre rs0) = []" "URI (run_cycles L pre rs0) = uri"
    using no_payload_run[OF assms(2)] i by simp_all
  then have "sent (snd (cycle L t client (run_cycles L pre rs0))) = [\<lparr>FlagData = p, Source = uri\<rparr>]"
    using cycle_payload(4)[OF assms(3,4), of t] by simp
  moreover have "sent (snd (cycle L t' client rs)) = [\<lparr>FlagData = p, Source = URI rs\<rparr>]"
    if "t' \<noteq> Periodic" "fetched L client rs = Inr p"
    using cycle_payload(4)[OF that(2) assms(4), of t'] that(1) by simp
  ultimately show ?thesis by simp
qed

theorem first_fetch_emits_witness:
  "NewRedisSync example_parse example_Atoi ''redis://localhost:6379/0?key=flags'' = Inr example_sync
   \<and> no_payload example_libs [(Initial, empty_server), (Periodic, failing_server)] example_sync
   \<and> sent (snd (cycle example_libs Periodic (json_server ''{}'')
        (run_cycles example_libs [(Initial, empty_server), (Periodic, failing_server)] example_sync)))
      = [\<lparr>FlagData = ''{}'', Source = ''redis://localhost:6379/0?key=flags''\<rparr>]"
  using first_fetch_emits[of example_parse example_Atoi "''redis://localhost:6379/0?key=flags''"
      example_sync example_libs "[(Initial, empty_server), (Periodic, failing_server)]"
      "json_server ''{}''" "''{}''" Periodic OnDemand example_sync]
    example_sync_constructed
  by (simp add: eval_defs)

section \<open>Resync started by the service\<close>

lemma ReSync_sends_at_most_one: "length (sent (snd (snd (ReSync L client rs)))) \<le> 1"
proof -
  obtain r rs' fx where f: "fetchData L client rs = (r, rs', fx)"
    by (cases "fetchData L client rs") auto
  show ?thesis using f fetchData_no_send[OF f]
    by (simp add: ReSync_def Let_def sent_append split: sum.splits)
qed

lemma deliver_fresh:
  "length xs \<le> 1 \<Longrightarrow> deliver xs (make_chan 1) = Some \<lparr>cap = 1, buf = xs\<rparr>"
  by (cases xs) (simp_all add: make_chan_def chan_send_def)

lemma sent_logged: "sent (logged fx) = []"
  unfolding logged_def by (induction fx rule: sent.induct) simp_all

lemma resync_task_result:
  "fst (resync_task L client rs) = fst (snd (ReSync L client rs))"
  "sent (fst (snd (resync_task L client rs))) = []"
  "snd (snd (resync_task L client rs))
     = Some \<lparr>cap = 1, buf = sent (snd (snd (ReSync L client rs)))\<rparr>"
  using deliver_fresh[OF ReSync_sends_at_most_one[of L client rs]]
  by (simp_all add: resync_task_def Let_def case_prod_beta sent_append sent_logged
        split: option.splits)

lemma updateStore_flagStore:
  "flagStore (fst (snd (updateStoreFromSyncData SetState L client s data))) =
     (if FlagData data = [] then flagStore s else fst (SetState (flagStore s) data))"
  by (simp add: updateStoreFromSyncData_def Let_def case_prod_beta split: sum.splits)

lemma processSyncData_store:
  "map fst ins = map fst ins' \<Longrightarrow> flagStore s1 = flagStore s2 \<Longrightarrow>
     flagStore (fst (processSyncData SetState L ins s1))
       = flagStore (fst (processSyncData SetState L ins' s2))"
proof (induction ins arbitrary: ins' s1 s2)
  case Nil
  then show ?case by simp
next
  case (Cons x ins)
  obtain data client where x: "x = (data, client)" by (cases x)
  from Cons.prems(1) x obtain client' rest where i: "ins' = (data, client') # rest"
    and m: "map fst ins = map fst rest" by (cases ins') auto
  let ?a = "fst (snd (updateStoreFromSyncData SetState L client s1 data))"
  let ?b = "fst (snd (updateStoreFromSyncData SetState L client' s2 data))"
  have "flagStore ?a = flagStore ?b"
    using Cons.prems(2) by (simp add: updateStore_flagStore)
  from Cons.IH[OF m this] show ?case
    using x i by (simp add: case_prod_beta Let_def)
qed

text \<open>
  C10. When \<^verbatim>\<open>SetState\<close> reports that a resync is required, \<^verbatim>\<open>ReSync\<close> runs with a
  new channel of capacity 1. Whatever it sends stays in that channel, which nothing else
  refers to; the call itself sends nothing; the flag store is the one that \<^verbatim>\<open>SetState\<close>
  returned; and the store at the end of \<^verbatim>\<open>processSyncData\<close> depends on the received
  values only, not on what the resyncs fetched.
\<close>

theorem resync_events_are_discarded:
  assumes "FlagData data \<noteq> []" and "SetState (flagStore s) data = (store', Inr (n, True))"
  shows "fst (updateStoreFromSyncData SetState L client s data) = None
       \<and> flagStore (fst (snd (updateStoreFromSyncData SetState L client s data))) = store'
       \<and> sent (fst (snd (snd (updateStoreFromSyncData SetState L client s data)))) = []
       \<and> snd (snd (snd (updateStoreFromSyncData SetState L client s data)))
           = Some (Some \<lparr>cap = 1, buf = sent (snd (snd (ReSync L client (redisSync s))))\<rparr>)
       \<and> (map fst ins = map fst ins' \<longrightarrow>
            flagStore (fst (processSyncData SetState L ins s))
              = flagStore (fst (processSyncData SetState L ins' s)))"
proof -
  have "flagStore (fst (snd (updateStoreFromSyncData SetState L client s data))) = store'"
    using assms by (simp add: updateStore_flagStore)
  moreover have "fst (updateStoreFromSyncData SetState L client s data) = None"
    using assms by (simp add: updateStoreFromSyncData_def Let_def case_prod_beta)
  moreover have "sent (fst (snd (snd (updateStoreFromSyncData SetState L client s data)))) = []"
    using assms resync_task_result(2)[of L client "redisSync s"]
    by (simp add: updateStoreFromSyncData_def Let_def case_prod_beta sent_append)
  moreover have "snd (snd (snd (updateStoreFromSyncData SetState L client s data)))
           = Some (Some \<lparr>cap = 1, buf = sent (snd (snd (ReSync L client (redisSync s))))\<rparr>)"
    using assms resync_task_result(3)[of L client "redisSync s"]
    by (simp add: updateStoreFromSyncData_def Let_def case_prod_beta)
  ultimately show ?thesis using processSyncData_store[of ins ins' s s SetState L] by simp
qed

theorem resync_events_are_discarded_witness:
  "example_SetState ''old'' \<lparr>FlagData = ''new'', Source = ''src''\<rparr> = (''new'', Inr (1, True))
   \<and> flagStore (fst (snd (updateStoreFromSyncData example_SetState example_libs
        (json_server ''{}'') \<lparr>redisSync = example_sync, flagStore = ''old''\<rparr>
        \<lparr>FlagData = ''new'', Source = ''src''\<rparr>))) = ''new''
   \<and> snd (snd (snd (updateStoreFromSyncData example_SetState example_libs
        (json_server ''{}'') \<lparr>redisSync = example_sync, flagStore = ''old''\<rparr>
        \<lparr>FlagData = ''new'', Source = ''src''\<rparr>)))
      = Some (Some \<lparr>cap = 1, buf = [\<lparr>FlagData = ''{}'', Source = URI example_sync\<rparr>]\<rparr>)"
  using resync_events_are_discarded[of "\<lparr>FlagData = ''new'', Source = ''src''\<rparr>"
      example_SetState "\<lparr>redisSync = example_sync, flagStore = ''old''\<rparr>" "''new''" 1
      example_libs "json_server ''{}''" "[]" "[]"]
  by (simp add: example_SetState_def eval_defs)

section \<open>The schedule expression\<close>

text \<open>\<^verbatim>\<open>Sync\<close> registers its job under \<^verbatim>\<open>*/<interval> * * * *\<close>, with the interval
  that the provider holds at that moment.\<close>

lemma cron_spec_30: "cron_spec 30 = ''*/30 * * * *''"
  by (simp add: cron_spec_def fmt_d.simps)

lemma Sync_start_installs:
  "cron_entries (Cron (fst (snd (Sync_start L client rs))))
     = cron_entries (Cron rs) @ [cron_spec (Interval rs)]"
proof -
  let ?rs1 = "rs\<lparr>Cron := AddFunc (cron_spec (Interval rs)) (Cron rs)\<rparr>"
  obtain sha where "fst (snd (fetchData L client ?rs1)) = ?rs1\<lparr>LastSHA := sha\<rparr>"
    using fetchData_frame by blast
  then show ?thesis
    by (cases "fetchData L client ?rs1")
       (auto simp: Sync_start_def Let_def AddFunc_def Start_def split: sum.splits)
qed

lemma SetInterval_spec:
  "cron_entries (Cron (fst (snd (Sync_start L client (SetInterval n rs)))))
     = cron_entries (Cron rs) @ [cron_spec n]"
  by (simp add: Sync_start_installs) (simp add: SetInterval_def)

end
